theory Spec2Isabelle
  imports Complex_Main
begin

section \<open>Data model\<close>

text \<open>
  The documents of the store, as the Mongoose schemas declare them. A JavaScript
  \<^verbatim>\<open>Number\<close> is modelled as a rational and its arithmetic as exact (the price
  computation is given a second time with the rounding of binary64 arithmetic), a
  \<^verbatim>\<open>Date\<close> as its \<^verbatim>\<open>getTime()\<close> value (milliseconds since the epoch, an
  integer), an \<^verbatim>\<open>ObjectId\<close> as a natural number, an optional field as an
  \<open>option\<close>.
\<close>

type_synonym object_id = nat
type_synonym date = int
type_synonym number = rat

text \<open>\<^verbatim>\<open>bookingSchema.status\<close>: the enum, in the order of the schema.\<close>

datatype booking_status =
    pending_payment | confirmed | checked_out | in_progress | completed
  | cancelled | no_show | driver_unavailable | refunded

text \<open>\<^verbatim>\<open>userSchema.role\<close>.\<close>

datatype role = Customer | Vendor | Admin

text \<open>\<^verbatim>\<open>pricingSchema\<close> of the vehicle model.\<close>

record pricing =
  baseDaily :: number
  baseHourly :: "number option"
  weeklyDiscountPercent :: number
  monthlyDiscountPercent :: number
  extraHourCharge :: number
  depositAmount :: number

text \<open>\<^verbatim>\<open>availabilityBlockSchema\<close>: a vendor block of the vehicle.\<close>

record availability_block =
  block_start :: date
  block_end :: date
  reason :: string

text \<open>\<^verbatim>\<open>vehicleSchema\<close>, the fields the booking controller reads.\<close>

record vehicle_doc =
  vehicle_id :: object_id
  vehicle_vendor :: object_id
  title :: string
  vehicleType :: string
  images :: "string list"
  pricing :: pricing
  availabilityBlocks :: "availability_block list"
  isActive :: bool

text \<open>\<^verbatim>\<open>promoSchema\<close>.\<close>

datatype discount_type = percentage | flat

record promo_doc =
  promo_id :: object_id
  code :: string
  discountType :: discount_type
  discountValue :: number
  minBookingAmount :: "number option"
  maxDiscountAmount :: "number option"
  validFrom :: date
  validTill :: date
  promo_isActive :: bool

record duration =
  days :: int
  hours :: int

text \<open>
  The \<^verbatim>\<open>priceBreakdown\<close> object that \<^verbatim>\<open>calculateBookingPrice\<close> builds
  (lines 107-118), with the \<^verbatim>\<open>duration\<close> it carries.
\<close>

record price_breakdown =
  baseAmount :: number
  driverAmount :: number
  taxes :: number
  discount :: number
  deposit :: number
  totalPayable :: number
  pb_duration :: duration

section \<open>JavaScript arithmetic\<close>

text \<open>\<^verbatim>\<open>Math.ceil\<close> and \<^verbatim>\<open>Math.round\<close> (half-way cases go up).\<close>

definition Math_ceil :: "number \<Rightarrow> int" where
  "Math_ceil x = \<lceil>x\<rceil>"

definition Math_round :: "number \<Rightarrow> int" where
  "Math_round x = \<lfloor>x + 1 / 2\<rfloor>"

text \<open>The remainder operator \<^verbatim>\<open>%\<close>: the result has the sign of the dividend.\<close>

definition js_rem :: "int \<Rightarrow> int \<Rightarrow> int" where
  "js_rem a b = sgn a * (\<bar>a\<bar> mod \<bar>b\<bar>)"

text \<open>\<^verbatim>\<open>x || d\<close> on numbers: zero is falsy.\<close>

definition js_or :: "number \<Rightarrow> number \<Rightarrow> number" where
  "js_or x d = (if x = 0 then d else x)"

text \<open>\<^verbatim>\<open>String.prototype.toUpperCase\<close> on ASCII letters.\<close>

definition upper_char :: "char \<Rightarrow> char" where
  "upper_char c =
     (let n = (of_char c :: nat) in if 97 \<le> n \<and> n \<le> 122 then char_of (n - 32) else c)"

definition toUpperCase :: "string \<Rightarrow> string" where
  "toUpperCase s = map upper_char s"

text \<open>
  \<^verbatim>\<open>String.prototype.trim\<close> on the white space of ASCII (tab, line feed, vertical
  tab, form feed, carriage return, space).
\<close>

definition js_space :: "char \<Rightarrow> bool" where
  "js_space c = ((of_char c :: nat) \<in> set [9, 10, 11, 12, 13, 32])"

definition trim :: "string \<Rightarrow> string" where
  "trim s = rev (dropWhile js_space (rev (dropWhile js_space s)))"

section \<open>Price computation\<close>

text \<open>
  \<^verbatim>\<open>calculateBookingPrice\<close>, lines 40-43: the duration in hours and days of the
  window, both rounded up. No comparison of the two dates is made.
\<close>

definition durationHours :: "date \<Rightarrow> date \<Rightarrow> int" where
  "durationHours pickup dropoff =
     (let durationMs = dropoff - pickup
      in Math_ceil (of_int durationMs / (1000 * 60 * 60)))"

definition durationDays :: "date \<Rightarrow> date \<Rightarrow> int" where
  "durationDays pickup dropoff = Math_ceil (of_int (durationHours pickup dropoff) / 24)"

text \<open>Lines 45-65: the base amount from the tier and the hours beyond whole days.\<close>

definition tierAmount :: "pricing \<Rightarrow> int \<Rightarrow> number" where
  "tierAmount p d =
     (if d \<ge> 30 \<and> monthlyDiscountPercent p > 0 then
        (let monthlyRate = baseDaily p * 30;
             discount = monthlyRate * (monthlyDiscountPercent p / 100)
         in monthlyRate - discount)
      else if d \<ge> 7 \<and> weeklyDiscountPercent p > 0 then
        (let weeklyRate = baseDaily p * 7;
             discount = weeklyRate * (weeklyDiscountPercent p / 100)
         in weeklyRate - discount)
      else baseDaily p * of_int d)"

definition calcBaseAmount :: "pricing \<Rightarrow> int \<Rightarrow> int \<Rightarrow> number" where
  "calcBaseAmount p d h =
     (let baseAmount = tierAmount p d
      in if js_rem h 24 > 0 \<and> extraHourCharge p > 0
         then baseAmount + extraHourCharge p * of_int (js_rem h 24)
         else baseAmount)"

text \<open>Lines 67-72: the driver charge, 100 per hour.\<close>

definition calcDriverAmount :: "string \<Rightarrow> bool \<Rightarrow> int \<Rightarrow> number" where
  "calcDriverAmount bookingType driverRequired h =
     (if bookingType = ''with-driver'' \<or> driverRequired then 100 * of_int h else 0)"

text \<open>
  Lines 84-90: \<^verbatim>\<open>PromoCode.findOne\<close> with the code in upper case, active, and
  valid at the current time. The value of the filter is cast by the schema of the
  \<^verbatim>\<open>code\<close> field (\<^verbatim>\<open>uppercase: true, trim: true\<close>), which trims it.
\<close>

definition findPromoCode :: "promo_doc list \<Rightarrow> date \<Rightarrow> string \<Rightarrow> promo_doc option" where
  "findPromoCode promos now c =
     find (\<lambda>p. code p = trim (toUpperCase c) \<and> promo_isActive p
                \<and> validFrom p \<le> now \<and> validTill p \<ge> now) promos"

text \<open>
  Lines 92-102: the discount of a promotion that was found. A percentage is taken of
  the base amount and capped by a non-zero \<^verbatim>\<open>maxDiscountAmount\<close>; a flat
  discount is its value.
\<close>

definition promoDiscount :: "promo_doc \<Rightarrow> number \<Rightarrow> number" where
  "promoDiscount pc base =
     (case discountType pc of
        percentage \<Rightarrow>
          (let discount = base * (discountValue pc / 100)
           in case maxDiscountAmount pc of
                Some m \<Rightarrow> if m \<noteq> 0 \<and> discount > m then m else discount
              | None \<Rightarrow> discount)
      | flat \<Rightarrow> discountValue pc)"

definition calcDiscount :: "promo_doc option \<Rightarrow> number \<Rightarrow> number" where
  "calcDiscount promoCodeDetails base =
     (case promoCodeDetails of None \<Rightarrow> 0 | Some pc \<Rightarrow> promoDiscount pc base)"

text \<open>
  Lines 37-118 together: the breakdown for a vehicle's rate card, a window, the booking
  type and the promotion that the lookup returned (if any).
\<close>

definition computePrice ::
  "pricing \<Rightarrow> date \<Rightarrow> date \<Rightarrow> string \<Rightarrow> bool \<Rightarrow> promo_doc option \<Rightarrow> price_breakdown" where
  "computePrice p pickup dropoff bookingType driverRequired promoCodeDetails =
     (let h = durationHours pickup dropoff;
          d = durationDays pickup dropoff;
          base = calcBaseAmount p d h;
          driver = calcDriverAmount bookingType driverRequired h;
          tax = (base + driver) * (18 / 100);
          dep = js_or (depositAmount p) 0;
          disc = calcDiscount promoCodeDetails base;
          total = base + driver + tax + dep - disc
      in \<lparr> baseAmount = base,
           driverAmount = driver,
           taxes = of_int (Math_round tax),
           discount = of_int (Math_round disc),
           deposit = dep,
           totalPayable = of_int (Math_round total),
           pb_duration = \<lparr> days = d, hours = h \<rparr> \<rparr>)"

section \<open>The price computation in binary64\<close>

text \<open>
  The numbers of the code are IEEE 754 binary64 values, and every arithmetic operation
  returns the binary64 value nearest to the exact result (ties to the even significand).
  \<open>binary64\<close> is that rounding on the finite range: 53 significant bits, the least
  exponent -1022 (below it the spacing stays \<open>2 ^ -1074\<close>). Results of magnitude
  \<open>2 ^ 1024\<close> and more, where the code has \<^verbatim>\<open>Infinity\<close>, are not represented.
\<close>

function bit_length :: "int \<Rightarrow> int" where
  "bit_length n = (if n \<le> 0 then 0 else 1 + bit_length (n div 2))"
  by pat_completeness auto
termination
  by (relation "measure nat") auto

definition pow2 :: "int \<Rightarrow> rat" where
  "pow2 e = (if e \<ge> 0 then 2 ^ nat e else 1 / 2 ^ nat (- e))"

text \<open>The exponent \<open>e\<close> of a non-zero number: \<open>2 ^ e \<le> \<bar>x\<bar> < 2 ^ (e + 1)\<close>.\<close>

definition binary_exponent :: "rat \<Rightarrow> int" where
  "binary_exponent x =
     (if \<bar>x\<bar> \<ge> 1 then bit_length \<lfloor>\<bar>x\<bar>\<rfloor> - 1
      else - bit_length (\<lceil>1 / \<bar>x\<bar>\<rceil> - 1))"

definition roundTiesToEven :: "rat \<Rightarrow> int" where
  "roundTiesToEven x =
     (let f = \<lfloor>x\<rfloor>; r = x - of_int f
      in if r < 1 / 2 then f else if r > 1 / 2 then f + 1
         else if even f then f else f + 1)"

definition binary64 :: "rat \<Rightarrow> rat" where
  "binary64 x =
     (if x = 0 then 0
      else (let e = max (binary_exponent x) (- 1022);
                ulp = pow2 (e - 52)
            in of_int (roundTiesToEven (x / ulp)) * ulp))"

text \<open>
  Lines 37-118 once more, with the result of every arithmetic operation, every constant
  and every number read from a document passed through a rounding \<open>rnd\<close>: with
  \<open>rnd = binary64\<close> this is the arithmetic of the code, with the identity it is the
  exact arithmetic of \<open>computePrice\<close>. \<^verbatim>\<open>Math.ceil\<close>, \<^verbatim>\<open>Math.round\<close> and
  \<^verbatim>\<open>%\<close> are exact on binary64 values, and the integers they return are binary64
  values.
\<close>

definition readPricing :: "(number \<Rightarrow> number) \<Rightarrow> pricing \<Rightarrow> pricing" where
  "readPricing rnd p =
     \<lparr> baseDaily = rnd (baseDaily p),
       baseHourly = map_option rnd (baseHourly p),
       weeklyDiscountPercent = rnd (weeklyDiscountPercent p),
       monthlyDiscountPercent = rnd (monthlyDiscountPercent p),
       extraHourCharge = rnd (extraHourCharge p),
       depositAmount = rnd (depositAmount p) \<rparr>"

definition readPromo :: "(number \<Rightarrow> number) \<Rightarrow> promo_doc \<Rightarrow> promo_doc" where
  "readPromo rnd pc =
     pc\<lparr> discountValue := rnd (discountValue pc),
         minBookingAmount := map_option rnd (minBookingAmount pc),
         maxDiscountAmount := map_option rnd (maxDiscountAmount pc) \<rparr>"

definition durationHoursWith :: "(number \<Rightarrow> number) \<Rightarrow> date \<Rightarrow> date \<Rightarrow> int" where
  "durationHoursWith rnd pickup dropoff =
     (let durationMs = rnd (of_int (dropoff - pickup))
      in Math_ceil (rnd (durationMs / (1000 * 60 * 60))))"

definition durationDaysWith :: "(number \<Rightarrow> number) \<Rightarrow> date \<Rightarrow> date \<Rightarrow> int" where
  "durationDaysWith rnd pickup dropoff =
     Math_ceil (rnd (of_int (durationHoursWith rnd pickup dropoff) / 24))"

definition tierAmountWith :: "(number \<Rightarrow> number) \<Rightarrow> pricing \<Rightarrow> int \<Rightarrow> number" where
  "tierAmountWith rnd p d =
     (if d \<ge> 30 \<and> monthlyDiscountPercent p > 0 then
        (let monthlyRate = rnd (baseDaily p * 30);
             discount = rnd (monthlyRate * rnd (monthlyDiscountPercent p / 100))
         in rnd (monthlyRate - discount))
      else if d \<ge> 7 \<and> weeklyDiscountPercent p > 0 then
        (let weeklyRate = rnd (baseDaily p * 7);
             discount = rnd (weeklyRate * rnd (weeklyDiscountPercent p / 100))
         in rnd (weeklyRate - discount))
      else rnd (baseDaily p * of_int d))"

definition calcBaseAmountWith ::
  "(number \<Rightarrow> number) \<Rightarrow> pricing \<Rightarrow> int \<Rightarrow> int \<Rightarrow> number" where
  "calcBaseAmountWith rnd p d h =
     (let baseAmount = tierAmountWith rnd p d
      in if js_rem h 24 > 0 \<and> extraHourCharge p > 0
         then rnd (baseAmount + rnd (extraHourCharge p * of_int (js_rem h 24)))
         else baseAmount)"

definition calcDriverAmountWith ::
  "(number \<Rightarrow> number) \<Rightarrow> string \<Rightarrow> bool \<Rightarrow> int \<Rightarrow> number" where
  "calcDriverAmountWith rnd bookingType driverRequired h =
     (if bookingType = ''with-driver'' \<or> driverRequired then rnd (100 * of_int h) else 0)"

definition promoDiscountWith :: "(number \<Rightarrow> number) \<Rightarrow> promo_doc \<Rightarrow> number \<Rightarrow> number" where
  "promoDiscountWith rnd pc base =
     (case discountType pc of
        percentage \<Rightarrow>
          (let discount = rnd (base * rnd (discountValue pc / 100))
           in case maxDiscountAmount pc of
                Some m \<Rightarrow> if m \<noteq> 0 \<and> discount > m then m else discount
              | None \<Rightarrow> discount)
      | flat \<Rightarrow> discountValue pc)"

definition calcDiscountWith ::
  "(number \<Rightarrow> number) \<Rightarrow> promo_doc option \<Rightarrow> number \<Rightarrow> number" where
  "calcDiscountWith rnd promoCodeDetails base =
     (case promoCodeDetails of None \<Rightarrow> 0 | Some pc \<Rightarrow> promoDiscountWith rnd pc base)"

text \<open>Line 75 and line 105: the taxes and the total before \<^verbatim>\<open>Math.round\<close>.\<close>

definition taxesWith :: "(number \<Rightarrow> number) \<Rightarrow> number \<Rightarrow> number \<Rightarrow> number" where
  "taxesWith rnd base driver = rnd (rnd (base + driver) * rnd (18 / 100))"

definition totalWith ::
  "(number \<Rightarrow> number) \<Rightarrow> number \<Rightarrow> number \<Rightarrow> number \<Rightarrow> number \<Rightarrow> number \<Rightarrow> number" where
  "totalWith rnd base driver tax dep disc =
     rnd (rnd (rnd (rnd (base + driver) + tax) + dep) - disc)"

definition computePriceWith ::
  "(number \<Rightarrow> number) \<Rightarrow> pricing \<Rightarrow> date \<Rightarrow> date \<Rightarrow> string \<Rightarrow> bool \<Rightarrow> promo_doc option
     \<Rightarrow> price_breakdown" where
  "computePriceWith rnd p0 pickup dropoff bookingType driverRequired promo0 =
     (let p = readPricing rnd p0;
          promoCodeDetails = map_option (readPromo rnd) promo0;
          h = durationHoursWith rnd pickup dropoff;
          d = durationDaysWith rnd pickup dropoff;
          base = calcBaseAmountWith rnd p d h;
          driver = calcDriverAmountWith rnd bookingType driverRequired h;
          tax = taxesWith rnd base driver;
          dep = js_or (depositAmount p) 0;
          disc = calcDiscountWith rnd promoCodeDetails base;
          total = totalWith rnd base driver tax dep disc
      in \<lparr> baseAmount = base,
           driverAmount = driver,
           taxes = of_int (Math_round tax),
           discount = of_int (Math_round disc),
           deposit = dep,
           totalPayable = of_int (Math_round total),
           pb_duration = \<lparr> days = d, hours = h \<rparr> \<rparr>)"

section \<open>The store\<close>

text \<open>\<^verbatim>\<open>bookingSchema\<close>: the pickup and dropoff sub-documents.\<close>

record place =
  city :: string
  locationName :: string
  datetime :: date

record cancellation_rec =
  cancelledBy :: role
  cancelledAt :: date
  cancellationFee :: "number option"
  cancel_reason :: "string option"

record penalties_rec =
  lateFee :: "number option"
  damageDeduction :: "number option"

datatype refund_status = refund_pending | refund_initiated | refund_completed | refund_rejected

record deposit_refund =
  dr_status :: refund_status
  dr_amount :: number

record booking_doc =
  booking_id :: object_id
  bookingRef :: string
  customer :: object_id
  vendor :: object_id
  vehicle :: object_id
  driver :: "object_id option"
  pickup :: place
  dropoff :: place
  bookingType :: string
  booking_duration :: duration
  priceBreakdown :: price_breakdown
  payment :: "object_id option"
  promoCode :: "object_id option"
  status :: booking_status
  cancellation :: "cancellation_rec option"
  penalties :: "penalties_rec option"
  depositRefund :: "deposit_refund option"
  createdByIP :: string
  booking_notes :: "string option"

record vendor_doc =
  vendor_id :: object_id
  vendor_user :: object_id

record notification =
  toUser :: "object_id option"
  toVendor :: "object_id option"
  ntype :: string
  n_bookingId :: object_id

record transaction_doc =
  ttype :: string
  relatedBooking :: object_id
  t_vendor :: object_id
  amount :: number

text \<open>\<^verbatim>\<open>paymentSchema\<close>.\<close>

datatype payment_status = payment_initiated | payment_success | payment_failed | payment_refunded

record payment_doc =
  payment_id :: object_id
  pay_booking :: object_id
  pay_user :: object_id
  pay_vendor :: object_id
  pay_amount :: number
  pay_currency :: string
  gatewayPaymentId :: "string option"
  gatewayOrderId :: "string option"
  gatewaySignature :: "string option"
  paymentMethod :: "string option"
  pay_status :: payment_status
  paidAt :: "date option"

record db =
  bookings :: "booking_doc list"
  vehicles :: "vehicle_doc list"
  vendors :: "vendor_doc list"
  promoCodes :: "promo_doc list"
  notifications :: "notification list"
  transactions :: "transaction_doc list"
  payments :: "payment_doc list"

text \<open>The authenticated principal, \<^verbatim>\<open>req.user\<close>.\<close>

record user =
  user_id :: object_id
  user_role :: role

text \<open>
  A reply of a handler: \<^verbatim>\<open>res.status(c).json({success: false, message: m})\<close> is
  the error \<open>HttpError c m\<close>; a reply with \<^verbatim>\<open>success: true\<close> is the data it
  carries.
\<close>

datatype error = HttpError nat string

definition findBooking :: "db \<Rightarrow> object_id \<Rightarrow> booking_doc option" where
  "findBooking s i = find (\<lambda>b. booking_id b = i) (bookings s)"

definition findVehicle :: "db \<Rightarrow> object_id \<Rightarrow> vehicle_doc option" where
  "findVehicle s i = find (\<lambda>v. vehicle_id v = i) (vehicles s)"


text \<open>\<^verbatim>\<open>booking.save()\<close> of a document that was read from the store.\<close>

definition saveBooking :: "booking_doc \<Rightarrow> db \<Rightarrow> db" where
  "saveBooking b s =
     s\<lparr>bookings := map (\<lambda>x. if booking_id x = booking_id b then b else x) (bookings s)\<rparr>"

definition createNotification :: "notification \<Rightarrow> db \<Rightarrow> db" where
  "createNotification n s = s\<lparr>notifications := notifications s @ [n]\<rparr>"




section \<open>Availability\<close>

text \<open>
  \<^verbatim>\<open>bookingSchema.statics.isVehicleAvailable\<close>: no booking of the vehicle whose
  status is one of the three listed and whose window meets the requested one.
\<close>

definition isVehicleAvailable :: "booking_doc list \<Rightarrow> object_id \<Rightarrow> date \<Rightarrow> date \<Rightarrow> bool" where
  "isVehicleAvailable bs vehicleId start end' =
     (\<not> list_ex (\<lambda>b. vehicle b = vehicleId
                     \<and> status b \<in> set [confirmed, checked_out, in_progress]
                     \<and> datetime (pickup b) < end' \<and> datetime (dropoff b) > start) bs)"

text \<open>
  \<^verbatim>\<open>getBookingAvailability\<close>, lines 168-171: the test on the vehicle's own
  availability blocks.
\<close>

definition hasAvailabilityBlock :: "vehicle_doc \<Rightarrow> date \<Rightarrow> date \<Rightarrow> bool" where
  "hasAvailabilityBlock v pickup' dropoff' =
     list_ex (\<lambda>block. block_start block \<le> dropoff' \<and> block_end block \<ge> pickup')
       (availabilityBlocks v)"

record availability_body =
  ab_vehicleId :: "object_id option"
  ab_pickupDateTime :: "date option"
  ab_dropoffDateTime :: "date option"

record availability_data =
  available :: bool
  ad_vehicleId :: object_id
  ad_dates :: "date \<times> date"
  ad_message :: string

definition getBookingAvailability :: "db \<Rightarrow> availability_body \<Rightarrow> error + availability_data" where
  "getBookingAvailability s body =
     (case (ab_vehicleId body, ab_pickupDateTime body, ab_dropoffDateTime body) of
        (Some vehicleId, Some pickup', Some dropoff') \<Rightarrow>
          (case findVehicle s vehicleId of
             None \<Rightarrow> Inl (HttpError 404 ''Vehicle not found'')
           | Some v \<Rightarrow>
               (let isAvailable = isVehicleAvailable (bookings s) vehicleId pickup' dropoff';
                    avail = isAvailable \<and> \<not> hasAvailabilityBlock v pickup' dropoff'
                in Inr \<lparr> available = avail,
                         ad_vehicleId = vehicleId,
                         ad_dates = (pickup', dropoff'),
                         ad_message =
                           (if avail then ''Vehicle is available for the selected dates''
                            else ''Vehicle is not available for the selected dates'') \<rparr>))
      | _ \<Rightarrow> Inl (HttpError 400 ''Vehicle ID, pickup date, and dropoff date are required''))"

section \<open>The price handler\<close>

text \<open>The body of a \<^verbatim>\<open>POST /calculate-price\<close> request (lines 13-20).\<close>

record price_body =
  vehicleId :: "object_id option"
  pickupDateTime :: "date option"
  dropoffDateTime :: "date option"
  body_promoCode :: "string option"
  body_bookingType :: "string option"
  driverRequired :: "bool option"

record price_vehicle =
  pv_id :: object_id
  pv_title :: string
  pv_vehicleType :: string
  pv_image :: "string option"

record price_data =
  pd_priceBreakdown :: price_breakdown
  pd_vehicle :: price_vehicle
  pd_promoCode :: "promo_doc option"

text \<open>
  Lines 22-132, the body of the \<^verbatim>\<open>try\<close> block once \<^verbatim>\<open>req.body\<close> has been
  read: the reply that is sent through \<^verbatim>\<open>res\<close>. An empty promo code is falsy
  and is not looked up.
\<close>

definition lookupPromoCode :: "db \<Rightarrow> date \<Rightarrow> string option \<Rightarrow> promo_doc option" where
  "lookupPromoCode s now promoCode' =
     (case promoCode' of
        None \<Rightarrow> None
      | Some c \<Rightarrow> if c = [] then None else findPromoCode (promoCodes s) now c)"

definition priceReply :: "db \<Rightarrow> date \<Rightarrow> price_body \<Rightarrow> error + price_data" where
  "priceReply s now body =
     (case (vehicleId body, pickupDateTime body, dropoffDateTime body) of
        (Some vid, Some pickup', Some dropoff') \<Rightarrow>
          (case findVehicle s vid of
             None \<Rightarrow> Inl (HttpError 404 ''Vehicle not found'')
           | Some v \<Rightarrow>
               (let bookingType' = (case body_bookingType body of
                                      None \<Rightarrow> ''self-drive'' | Some t \<Rightarrow> t);
                    driverRequired' = (case driverRequired body of
                                         None \<Rightarrow> False | Some r \<Rightarrow> r);
                    promoCodeDetails = lookupPromoCode s now (body_promoCode body)
                in Inr \<lparr> pd_priceBreakdown =
                           computePrice (pricing v) pickup' dropoff' bookingType'
                             driverRequired' promoCodeDetails,
                         pd_vehicle =
                           \<lparr> pv_id = vehicle_id v, pv_title = title v,
                             pv_vehicleType = vehicleType v,
                             pv_image = (case images v of [] \<Rightarrow> None | i # _ \<Rightarrow> Some i) \<rparr>,
                         pd_promoCode = promoCodeDetails \<rparr>))
      | _ \<Rightarrow> Inl (HttpError 400 ''Vehicle ID, pickup date, and dropoff date are required''))"

text \<open>
  \<^verbatim>\<open>calculateBookingPrice = async (req, res) => {...}\<close> as a JavaScript function.
  \<^verbatim>\<open>req.body\<close> is \<open>None\<close> when the first argument has no \<^verbatim>\<open>body\<close>
  property, \<^verbatim>\<open>res\<close> is \<open>None\<close> when no second argument is passed. The result
  is the reply sent through \<^verbatim>\<open>res\<close> (if any) and how the promise settles: the
  function returns \<^verbatim>\<open>res\<close> from its early \<^verbatim>\<open>return res.status(..).json(..)\<close>,
  \<^verbatim>\<open>undefined\<close> after the final \<^verbatim>\<open>res.json(..)\<close> and after the
  \<^verbatim>\<open>catch\<close> block, and it rejects when the \<^verbatim>\<open>catch\<close> block itself throws,
  which it does on \<^verbatim>\<open>res.status(500)\<close> with \<^verbatim>\<open>res\<close> undefined. Destructuring an
  undefined \<^verbatim>\<open>req.body\<close> throws inside the \<^verbatim>\<open>try\<close> block. (The messages of
  the engine's errors are written without their inner quotation marks.)

  \<open>price_response\<close> lists the values the caller in \<^verbatim>\<open>createBooking\<close> tells apart
  in what it awaits: \<^verbatim>\<open>undefined\<close>, the response object, and an object with the
  properties \<^verbatim>\<open>success\<close> and \<^verbatim>\<open>data\<close> (or \<^verbatim>\<open>message\<close>) that the caller
  reads; the handler never resolves to the last.
\<close>

datatype js_error = TypeError string

fun error_message :: "js_error \<Rightarrow> string" where
  "error_message (TypeError m) = m"

datatype response_object = ExpressResponse

datatype price_response = JsUndefined | JsRes | JsEnvelope "error + price_data"

datatype 'a settled = Rejected js_error | Resolved 'a

definition calculateBookingPrice ::
  "db \<Rightarrow> date \<Rightarrow> price_body option \<Rightarrow> response_object option
     \<Rightarrow> (error + price_data) option \<times> price_response settled" where
  "calculateBookingPrice s now req_body res =
     (case res of
        None \<Rightarrow>
          (None, Rejected (TypeError ''Cannot read properties of undefined (reading status)''))
      | Some _ \<Rightarrow>
          (case req_body of
             None \<Rightarrow>
               (Some (Inl (HttpError 500 ''Failed to calculate booking price'')),
                Resolved JsUndefined)
           | Some body \<Rightarrow>
               (case priceReply s now body of
                  Inl e \<Rightarrow> (Some (Inl e), Resolved JsRes)
                | Inr d \<Rightarrow> (Some (Inr d), Resolved JsUndefined))))"

section \<open>Creating a booking\<close>

record place_body =
  in_city :: string
  in_locationName :: string
  in_datetime :: "date option"

record booking_body =
  bb_vehicleId :: "object_id option"
  bb_pickup :: "place_body option"
  bb_dropoff :: "place_body option"
  bb_bookingType :: "string option"
  bb_driverId :: "object_id option"
  bb_promoCode :: "string option"
  bb_notes :: "string option"

text \<open>
  What a request brings besides its body: the principal, the address, and the values
  the handler draws from its environment (the generated reference and document id).
\<close>

record request_env =
  req_user :: user
  req_ip :: string
  gen_bookingRef :: string
  gen_id :: object_id

record created_data =
  cd_booking :: booking_doc
  paymentRequired :: bool

text \<open>
  Lines 250-296 of \<^verbatim>\<open>createBooking\<close>: the part after the price response was found
  successful. The document is built with the schema's default status, saved (the
  booking type is validated against its enum, the reference has a unique index), and
  the vendor is notified. The save is not conditioned on the bookings in the store.
\<close>

definition persistBooking ::
  "db \<Rightarrow> request_env \<Rightarrow> booking_body \<Rightarrow> vehicle_doc \<Rightarrow> date \<Rightarrow> date \<Rightarrow> place_body \<Rightarrow> place_body
     \<Rightarrow> price_data \<Rightarrow> (error + created_data) \<times> db" where
  "persistBooking s env body v pickupDateTime' dropoffDateTime' p d pdata =
     (let booking =
            \<lparr> booking_id = gen_id env,
              bookingRef = gen_bookingRef env,
              customer = user_id (req_user env),
              vendor = vehicle_vendor v,
              vehicle = vehicle_id v,
              driver = bb_driverId body,
              pickup = \<lparr> city = in_city p, locationName = in_locationName p,
                         datetime = pickupDateTime' \<rparr>,
              dropoff = \<lparr> city = in_city d, locationName = in_locationName d,
                          datetime = dropoffDateTime' \<rparr>,
              bookingType = (case bb_bookingType body of
                               None \<Rightarrow> ''self-drive''
                             | Some t \<Rightarrow> if t = [] then ''self-drive'' else t),
              booking_duration = pb_duration (pd_priceBreakdown pdata),
              priceBreakdown = pd_priceBreakdown pdata,
              payment = None,
              promoCode = map_option promo_id (pd_promoCode pdata),
              status = pending_payment,
              cancellation = None,
              penalties = None,
              depositRefund = None,
              createdByIP = req_ip env,
              booking_notes = bb_notes body \<rparr>
      in if bookingType booking \<notin> set [''self-drive'', ''with-driver'']
         then (Inl (HttpError 500 ''Booking validation failed''), s)
         else if list_ex (\<lambda>b. bookingRef b = bookingRef booking) (bookings s)
         then (Inl (HttpError 500 ''E11000 duplicate key error''), s)
         else
           (let s1 = s\<lparr>bookings := bookings s @ [booking]\<rparr>;
                s2 = createNotification
                       \<lparr> toUser = None, toVendor = Some (vehicle_vendor v),
                         ntype = ''new_booking'', n_bookingId = booking_id booking \<rparr> s1
            in (Inr \<lparr> cd_booking = booking, paymentRequired = True \<rparr>, s2)))"

text \<open>
  \<^verbatim>\<open>createBooking\<close>. The price is asked of \<^verbatim>\<open>calculateBookingPrice\<close> with one
  argument, a plain object without \<^verbatim>\<open>body\<close>, and no \<^verbatim>\<open>res\<close> (lines 237-244).
  A rejection of that call is caught by the handler's own \<^verbatim>\<open>catch\<close> block, which
  replies 500 with the error's message; so is the error of reading \<^verbatim>\<open>success\<close> of
  \<^verbatim>\<open>undefined\<close> and of serialising the response object. A response with a
  falsy \<^verbatim>\<open>success\<close> is passed on with status 400.
\<close>

definition createBooking ::
  "db \<Rightarrow> date \<Rightarrow> request_env \<Rightarrow> booking_body \<Rightarrow> (error + created_data) \<times> db" where
  "createBooking s now env body =
     (case (bb_vehicleId body, bb_pickup body, bb_dropoff body) of
        (Some vehicleId', Some p, Some d) \<Rightarrow>
          (case (in_datetime p, in_datetime d) of
             (Some pickupDateTime', Some dropoffDateTime') \<Rightarrow>
               (case findVehicle s vehicleId' of
                  None \<Rightarrow> (Inl (HttpError 404 ''Vehicle not found''), s)
                | Some v \<Rightarrow>
                    if \<not> isVehicleAvailable (bookings s) vehicleId' pickupDateTime' dropoffDateTime'
                    then (Inl (HttpError 400 ''Vehicle is not available for the selected dates''), s)
                    else
                      (case snd (calculateBookingPrice s now None None) of
                         Rejected err \<Rightarrow> (Inl (HttpError 500 (error_message err)), s)
                       | Resolved JsUndefined \<Rightarrow>
                           (Inl (HttpError 500
                              ''Cannot read properties of undefined (reading success)''), s)
                       | Resolved JsRes \<Rightarrow>
                           (Inl (HttpError 500 ''Converting circular structure to JSON''), s)
                       | Resolved (JsEnvelope (Inl (HttpError c m))) \<Rightarrow>
                           (Inl (HttpError 400 m), s)
                       | Resolved (JsEnvelope (Inr pdata)) \<Rightarrow>
                           persistBooking s env body v pickupDateTime' dropoffDateTime'
                             p d pdata))
           | _ \<Rightarrow> (Inl (HttpError 400 ''Vehicle ID, pickup, and dropoff details are required''), s))
      | _ \<Rightarrow> (Inl (HttpError 400 ''Vehicle ID, pickup, and dropoff details are required''), s))"

section \<open>Status changes\<close>

text \<open>The status strings of the schema's enum.\<close>

fun status_name :: "booking_status \<Rightarrow> string" where
  "status_name pending_payment = ''pending_payment''"
| "status_name confirmed = ''confirmed''"
| "status_name checked_out = ''checked_out''"
| "status_name in_progress = ''in_progress''"
| "status_name completed = ''completed''"
| "status_name cancelled = ''cancelled''"
| "status_name no_show = ''no_show''"
| "status_name driver_unavailable = ''driver_unavailable''"
| "status_name refunded = ''refunded''"





text \<open>
  \<^verbatim>\<open>cancelBooking\<close> (\<^verbatim>\<open>POST /:id/cancel\<close>, any authenticated user). The fee is
  computed from the hours between the current time and the pickup.
\<close>

definition cancellableStatuses :: "booking_status list" where
  "cancellableStatuses = [pending_payment, confirmed]"

definition hoursUntilPickup :: "booking_doc \<Rightarrow> date \<Rightarrow> number" where
  "hoursUntilPickup booking now =
     (let pickupTime = datetime (pickup booking)
      in of_int (pickupTime - now) / (1000 * 60 * 60))"

definition calcCancellationFee :: "booking_doc \<Rightarrow> date \<Rightarrow> number" where
  "calcCancellationFee booking now =
     (if hoursUntilPickup booking now < 24 then
        baseAmount (priceBreakdown booking) * (5 / 10)
      else if hoursUntilPickup booking now < 48 then
        baseAmount (priceBreakdown booking) * (25 / 100)
      else 0)"

record cancel_data =
  cn_booking :: booking_doc
  cn_cancellationFee :: number
  refundAmount :: number

definition cancelBooking ::
  "db \<Rightarrow> date \<Rightarrow> user \<Rightarrow> object_id \<Rightarrow> string option \<Rightarrow> (error + cancel_data) \<times> db" where
  "cancelBooking s now u i reason' =
     (case findBooking s i of
        None \<Rightarrow> (Inl (HttpError 404 ''Booking not found''), s)
      | Some booking \<Rightarrow>
          if user_role u = Customer \<and> customer booking \<noteq> user_id u
          then (Inl (HttpError 403 ''Access denied''), s)
          else if status booking \<notin> set cancellableStatuses
          then (Inl (HttpError 400
                  (''Booking cannot be cancelled in '' @ status_name (status booking) @ '' status'')), s)
          else
            (let fee = calcCancellationFee booking now;
                 b' = booking\<lparr>status := cancelled,
                              cancellation :=
                                Some \<lparr> cancelledBy = user_role u, cancelledAt = now,
                                       cancellationFee = Some fee,
                                       cancel_reason = reason' \<rparr>\<rparr>;
                 s1 = saveBooking b' s;
                 s2 = createNotification
                        \<lparr> toUser = None, toVendor = Some (vendor b'),
                          ntype = ''booking_cancelled'', n_bookingId = booking_id b' \<rparr> s1
             in (Inr \<lparr> cn_booking = b', cn_cancellationFee = fee,
                       refundAmount = totalPayable (priceBreakdown b') - fee \<rparr>, s2)))"





section \<open>Payment verification\<close>



text \<open>
  The names that \<^verbatim>\<open>paymentController.js\<close> binds at its top level: by its import
  declarations (lines 1-12) and by its own \<^verbatim>\<open>const\<close> declarations. The name
  \<^verbatim>\<open>getPaymentDetails\<close> is in both lists (lines 10 and 282); a module that declares
  a name it also imports is rejected when it is parsed. \<open>verifyPayment\<close> below is the
  function as it is written, with the call \<^verbatim>\<open>getPaymentDetails(razorpay_payment_id)\<close>
  of line 164 read as the imported helper, whose reply object the following lines use.
\<close>

definition paymentController_imports :: "string list" where
  "paymentController_imports =
     [''Payment'', ''Booking'', ''User'', ''Vendor'', ''Transaction'', ''Notification'',
      ''createRazorpayOrder'', ''verifyPaymentSignature'', ''getPaymentDetails'',
      ''createRefund'']"

definition paymentController_declarations :: "string list" where
  "paymentController_declarations =
     [''createPaymentOrder'', ''verifyPayment'', ''getPaymentDetails'', ''getPaymentHistory'',
      ''initiateRefund'', ''handlePaymentWebhook'', ''handlePaymentCaptured'',
      ''handlePaymentFailed'', ''handleRefundProcessed'']"




section \<open>Terminal states\<close>


section \<open>Example data\<close>

text \<open>
  A vehicle at 1000 a day with a weekly discount of 20 percent and a vendor block from
  12:00 to 14:00 of day zero, a flat promotion of 5000, a booking of that vehicle and
  the payment of that booking.
  Times are milliseconds: 8:00 is 28800000, 10:00 is 36000000, 10:01 is 36060000,
  11:00 is 39600000, 12:00 is 43200000, 13:00 is 46800000, 14:00 is 50400000, an hour
  is 3600000, a day is 86400000.
\<close>

definition demo_pricing :: pricing where
  "demo_pricing =
     \<lparr> baseDaily = 1000, baseHourly = None, weeklyDiscountPercent = 20,
       monthlyDiscountPercent = 0, extraHourCharge = 0, depositAmount = 0 \<rparr>"

definition demo_vehicle :: vehicle_doc where
  "demo_vehicle =
     \<lparr> vehicle_id = 1, vehicle_vendor = 10, title = ''Innova'', vehicleType = ''car'',
       images = [], pricing = demo_pricing,
       availabilityBlocks =
         [\<lparr> block_start = 43200000, block_end = 50400000, reason = ''maintenance'' \<rparr>],
       isActive = True \<rparr>"

definition demo_promo :: promo_doc where
  "demo_promo =
     \<lparr> promo_id = 3, code = ''FLAT5000'', discountType = flat, discountValue = 5000,
       minBookingAmount = None, maxDiscountAmount = None,
       validFrom = 0, validTill = 86400000, promo_isActive = True \<rparr>"

definition demo_breakdown :: price_breakdown where
  "demo_breakdown =
     \<lparr> baseAmount = 3000, driverAmount = 0, taxes = 540, discount = 0, deposit = 500,
       totalPayable = 4040, pb_duration = \<lparr> days = 3, hours = 72 \<rparr> \<rparr>"

definition demo_booking :: "booking_status \<Rightarrow> date \<Rightarrow> date \<Rightarrow> booking_doc" where
  "demo_booking st t1 t2 =
     \<lparr> booking_id = 7, bookingRef = ''BOOK_1'', customer = 5, vendor = 10, vehicle = 1,
       driver = None,
       pickup = \<lparr> city = ''Pune'', locationName = ''Airport'', datetime = t1 \<rparr>,
       dropoff = \<lparr> city = ''Pune'', locationName = ''Airport'', datetime = t2 \<rparr>,
       bookingType = ''self-drive'',
       booking_duration = \<lparr> days = 3, hours = 72 \<rparr>,
       priceBreakdown = demo_breakdown,
       payment = None, promoCode = None, status = st,
       cancellation = None, penalties = None, depositRefund = None,
       createdByIP = ''10.0.0.1'', booking_notes = None \<rparr>"

definition demo_payment :: payment_doc where
  "demo_payment =
     \<lparr> payment_id = 9, pay_booking = 7, pay_user = 5, pay_vendor = 10, pay_amount = 4040,
       pay_currency = ''INR'', gatewayPaymentId = None, gatewayOrderId = Some ''order_1'',
       gatewaySignature = None, paymentMethod = None, pay_status = payment_initiated,
       paidAt = None \<rparr>"

definition demo_db :: "booking_doc list \<Rightarrow> db" where
  "demo_db bs =
     \<lparr> bookings = bs, vehicles = [demo_vehicle],
       vendors = [\<lparr> vendor_id = 10, vendor_user = 20 \<rparr>],
       promoCodes = [demo_promo], notifications = [], transactions = [],
       payments = [demo_payment] \<rparr>"

definition demo_customer :: user where
  "demo_customer = \<lparr> user_id = 5, user_role = Customer \<rparr>"



definition demo_env :: request_env where
  "demo_env =
     \<lparr> req_user = demo_customer, req_ip = ''10.0.0.1'',
       gen_bookingRef = ''BOOK_2'', gen_id = 8 \<rparr>"

definition demo_place :: "date \<Rightarrow> place_body" where
  "demo_place t = \<lparr> in_city = ''Pune'', in_locationName = ''Airport'', in_datetime = Some t \<rparr>"

definition demo_booking_body :: "date \<Rightarrow> date \<Rightarrow> booking_body" where
  "demo_booking_body t1 t2 =
     \<lparr> bb_vehicleId = Some 1, bb_pickup = Some (demo_place t1),
       bb_dropoff = Some (demo_place t2), bb_bookingType = Some ''self-drive'',
       bb_driverId = None, bb_promoCode = None, bb_notes = None \<rparr>"



text \<open>
  A second rate card: 500 a day with a weekly discount of 55 percent, and a flat
  promotion of 1859.
\<close>

definition demo_pricing2 :: pricing where
  "demo_pricing2 =
     \<lparr> baseDaily = 500, baseHourly = None, weeklyDiscountPercent = 55,
       monthlyDiscountPercent = 0, extraHourCharge = 0, depositAmount = 0 \<rparr>"

definition demo_promo2 :: promo_doc where
  "demo_promo2 =
     \<lparr> promo_id = 4, code = ''FLAT1859'', discountType = flat, discountValue = 1859,
       minBookingAmount = None, maxDiscountAmount = None,
       validFrom = 0, validTill = 86400000, promo_isActive = True \<rparr>"

definition demo_price_body :: "date \<Rightarrow> date \<Rightarrow> string option \<Rightarrow> price_body" where
  "demo_price_body t1 t2 promo =
     \<lparr> vehicleId = Some 1, pickupDateTime = Some t1, dropoffDateTime = Some t2,
       body_promoCode = promo, body_bookingType = None, driverRequired = None \<rparr>"

section \<open>Facts about the price computation\<close>

lemma durationHours_nonpos: "dr \<le> pu \<Longrightarrow> durationHours pu dr \<le> 0"
  by (simp add: durationHours_def Math_ceil_def Let_def divide_le_0_iff)

lemma durationDays_nonpos: "dr \<le> pu \<Longrightarrow> durationDays pu dr \<le> 0"
  using durationHours_nonpos[of dr pu]
  by (simp add: durationDays_def Math_ceil_def divide_le_0_iff)

lemma computePrice_duration:
  "pb_duration (computePrice p pu dr bt drv promo)
     = \<lparr> days = durationDays pu dr, hours = durationHours pu dr \<rparr>"
  by (simp add: computePrice_def Let_def)

text \<open>
  With a response object and a body that names a vehicle of the store and both dates,
  the handler replies with the breakdown of \<open>computePrice\<close>.
\<close>

lemma calculateBookingPrice_found:
  assumes "findVehicle s vid = Some v"
    and "vehicleId body = Some vid" and "pickupDateTime body = Some pickup'"
    and "dropoffDateTime body = Some dropoff'"
  shows "\<exists>d. calculateBookingPrice s now (Some body) (Some res)
                = (Some (Inr d), Resolved JsUndefined)
             \<and> pd_priceBreakdown d =
                 computePrice (pricing v) pickup' dropoff'
                   (case body_bookingType body of None \<Rightarrow> ''self-drive'' | Some t \<Rightarrow> t)
                   (case driverRequired body of None \<Rightarrow> False | Some r \<Rightarrow> r)
                   (lookupPromoCode s now (body_promoCode body))"
  using assms by (simp add: calculateBookingPrice_def priceReply_def Let_def)

text \<open>The promotion lookup puts the requested code in upper case and trims it.\<close>

lemma lookupPromoCode_trims:
  "map_option code (lookupPromoCode (demo_db []) 0 (Some '' flat5000 '')) = Some ''FLAT5000''"
  by code_simp

lemma demo_findVehicle: "findVehicle (demo_db bs) 1 = Some demo_vehicle"
  by (simp add: findVehicle_def demo_db_def demo_vehicle_def)

lemma Math_round_nonneg: "(0 \<le> Math_round x) = (- (1 / 2) \<le> x)"
  by (simp add: Math_round_def zero_le_floor) linarith

lemma tierAmount_weekly:
  "weeklyDiscountPercent p > 0 \<Longrightarrow> 7 \<le> d \<Longrightarrow> d < 30 \<Longrightarrow>
   tierAmount p d = baseDaily p * 7 - baseDaily p * 7 * (weeklyDiscountPercent p / 100)"
  by (simp add: tierAmount_def Let_def)

subsection \<open>A window of non-positive duration\<close>

text \<open>
  C8, as stated, fails: a request whose dropoff lies a day before its pickup is answered
  with a price breakdown (of minus one day: base amount -1000, total -1180), not with a
  validation error.
\<close>

theorem invalid_window_counterexample:
  "fst (calculateBookingPrice (demo_db []) 0 (Some (demo_price_body 86400000 0 None))
          (Some ExpressResponse))
   = Some (Inr \<lparr> pd_priceBreakdown =
                    \<lparr> baseAmount = - 1000, driverAmount = 0, taxes = - 180, discount = 0,
                      deposit = 0, totalPayable = - 1180,
                      pb_duration = \<lparr> days = - 1, hours = - 24 \<rparr> \<rparr>,
                  pd_vehicle = \<lparr> pv_id = 1, pv_title = ''Innova'', pv_vehicleType = ''car'',
                                 pv_image = None \<rparr>,
                  pd_promoCode = None \<rparr>)"
  by code_simp

text \<open>
  C8, amended: for every pricing request whose dropoff is not strictly after its pickup
  (and whose vehicle exists), the price computation does not fail; it replies with the
  breakdown computed from the window, whose duration in hours and in days is not
  positive.
\<close>

theorem nonpositive_window_is_priced:
  assumes "dropoff' \<le> pickup'" and "findVehicle s vid = Some v"
    and "vehicleId body = Some vid" and "pickupDateTime body = Some pickup'"
    and "dropoffDateTime body = Some dropoff'"
  shows "\<exists>d. calculateBookingPrice s now (Some body) (Some res)
                = (Some (Inr d), Resolved JsUndefined)
             \<and> pd_priceBreakdown d =
                 computePrice (pricing v) pickup' dropoff'
                   (case body_bookingType body of None \<Rightarrow> ''self-drive'' | Some t \<Rightarrow> t)
                   (case driverRequired body of None \<Rightarrow> False | Some r \<Rightarrow> r)
                   (lookupPromoCode s now (body_promoCode body))
             \<and> hours (pb_duration (pd_priceBreakdown d)) \<le> 0
             \<and> days (pb_duration (pd_priceBreakdown d)) \<le> 0"
proof -
  from calculateBookingPrice_found[OF assms(2-5)] obtain d where
    d: "calculateBookingPrice s now (Some body) (Some res)
          = (Some (Inr d), Resolved JsUndefined)"
       "pd_priceBreakdown d =
          computePrice (pricing v) pickup' dropoff'
            (case body_bookingType body of None \<Rightarrow> ''self-drive'' | Some t \<Rightarrow> t)
            (case driverRequired body of None \<Rightarrow> False | Some r \<Rightarrow> r)
            (lookupPromoCode s now (body_promoCode body))"
    by blast
  have "hours (pb_duration (pd_priceBreakdown d)) \<le> 0"
    using durationHours_nonpos[OF assms(1)] by (simp add: d(2) computePrice_duration)
  moreover have "days (pb_duration (pd_priceBreakdown d)) \<le> 0"
    using durationDays_nonpos[OF assms(1)] by (simp add: d(2) computePrice_duration)
  ultimately show ?thesis using d by blast
qed

text \<open>The amended C8 at the request of the counterexample.\<close>

theorem nonpositive_window_is_priced_witness:
  "(0::int) \<le> 86400000 \<and>
   findVehicle (demo_db []) 1 = Some demo_vehicle \<and>
   (\<exists>d. calculateBookingPrice (demo_db []) 0 (Some (demo_price_body 86400000 0 None))
           (Some ExpressResponse) = (Some (Inr d), Resolved JsUndefined)
        \<and> hours (pb_duration (pd_priceBreakdown d)) \<le> 0
        \<and> days (pb_duration (pd_priceBreakdown d)) \<le> 0)"
proof -
  have le: "(0::int) \<le> 86400000" by simp
  have v: "findVehicle (demo_db []) 1 = Some demo_vehicle" by (rule demo_findVehicle)
  have b1: "vehicleId (demo_price_body 86400000 0 None) = Some 1"
    and b2: "pickupDateTime (demo_price_body 86400000 0 None) = Some 86400000"
    and b3: "dropoffDateTime (demo_price_body 86400000 0 None) = Some 0"
    by (simp_all add: demo_price_body_def)
  from nonpositive_window_is_priced[OF le v b1 b2 b3, of 0 ExpressResponse]
  show ?thesis using le v by blast
qed

subsection \<open>A discount larger than the total\<close>

text \<open>
  C9, as stated, fails: one day at 1000 with the flat promotion of 5000 gives a total
  payable of 1000 + 180 - 5000 = -3820.
\<close>

theorem totalPayable_negative_counterexample:
  "map_option (map_sum id (\<lambda>d. totalPayable (pd_priceBreakdown d)))
     (fst (calculateBookingPrice (demo_db []) 0
             (Some (demo_price_body 0 86400000 (Some ''flat5000''))) (Some ExpressResponse)))
   = Some (Inr (- 3820))"
  by code_simp

text \<open>
  With the identity for the rounding, the computation with rounding is the exact one.
\<close>

lemma readPricing_exact: "readPricing (\<lambda>x. x) p = p"
  by (simp add: readPricing_def option.map_ident)

lemma readPromo_exact: "readPromo (\<lambda>x. x) pc = pc"
  by (simp add: readPromo_def option.map_ident)

lemma computePriceWith_exact:
  "computePriceWith (\<lambda>x. x) p pu dr bt drv promo = computePrice p pu dr bt drv promo"
proof -
  have m: "map_option (readPromo (\<lambda>x. x)) promo = promo"
    by (cases promo) (simp_all add: readPromo_exact)
  have h: "durationHoursWith (\<lambda>x. x) pu dr = durationHours pu dr"
    by (simp add: durationHoursWith_def durationHours_def Let_def)
  have d: "durationDaysWith (\<lambda>x. x) pu dr = durationDays pu dr"
    by (simp add: durationDaysWith_def durationDays_def h)
  have t: "tierAmountWith (\<lambda>x. x) p n = tierAmount p n" for n
    by (simp add: tierAmountWith_def tierAmount_def)
  have b: "calcBaseAmountWith (\<lambda>x. x) p n k = calcBaseAmount p n k" for n k
    by (simp add: calcBaseAmountWith_def calcBaseAmount_def t)
  have dr: "calcDriverAmountWith (\<lambda>x. x) bt drv k = calcDriverAmount bt drv k" for k
    by (simp add: calcDriverAmountWith_def calcDriverAmount_def)
  have pd: "promoDiscountWith (\<lambda>x. x) pc a = promoDiscount pc a" for pc a
    by (simp add: promoDiscountWith_def promoDiscount_def)
  have cd: "calcDiscountWith (\<lambda>x. x) promo a = calcDiscount promo a" for a
    by (cases promo) (simp_all add: calcDiscountWith_def calcDiscount_def pd)
  show ?thesis
    by (simp add: computePriceWith_def computePrice_def readPricing_exact m h d b dr cd
          taxesWith_def totalWith_def Let_def)
qed

text \<open>Some values of the rounding to binary64.\<close>

lemma binary64_values:
  "binary64 (18 / 100) = 3242591731706757 / 2 ^ 54"
  "binary64 (1 / 10) = 3602879701896397 / 2 ^ 55"
  "binary64 (- (1 / 3)) = - (6004799503160661 / 2 ^ 54)"
  "binary64 9007199254740993 = 9007199254740992"
  "binary64 9007199254740995 = 9007199254740996"
  "binary64 3500 = 3500"
  by code_simp+

text \<open>
  Where binary64 and exact arithmetic part: seven days at 500 a day with a weekly
  discount of 55 percent and the flat promotion of 1859. In binary64 the base amount is
  1574.9999999999998 (one unit in the last place below 1575), the total before rounding
  lies below -1/2 and the total payable is -1; in exact arithmetic the base amount is
  1575, the total before rounding is -1/2 and the total payable is 0. Without the
  promotion the taxes are 283 and the total payable 1858 in binary64.
\<close>

lemma binary64_against_exact:
  "baseAmount (computePriceWith binary64 demo_pricing2 0 (7 * 86400000) ''self-drive'' False
                 (Some demo_promo2)) = 1575 - 1 / 2 ^ 42"
  "totalPayable (computePriceWith binary64 demo_pricing2 0 (7 * 86400000) ''self-drive'' False
                   (Some demo_promo2)) = - 1"
  "totalPayable (computePrice demo_pricing2 0 (7 * 86400000) ''self-drive'' False
                   (Some demo_promo2)) = 0"
  by code_simp+

lemma binary64_without_promotion:
  "taxes (computePriceWith binary64 demo_pricing2 0 (7 * 86400000) ''self-drive'' False None)
     = 283"
  "totalPayable (computePriceWith binary64 demo_pricing2 0 (7 * 86400000) ''self-drive'' False
                   None) = 1858"
  by code_simp+

text \<open>
  One day at 1000 with the flat promotion of 5000, the request of the counterexample
  above: in binary64 every step is exact and the total payable is -3820 as well.
\<close>

lemma binary64_negative_total:
  "totalPayable (computePriceWith binary64 demo_pricing 0 86400000 ''self-drive'' False
                   (Some demo_promo)) = - 3820"
  by code_simp

text \<open>
  C9, amended: for every pricing request with an applied promotion, the promotion
  discount is subtracted from the grand total (base amount, driver amount, taxes and
  deposit) and the result is rounded, never clamped: the total payable is
  \<^verbatim>\<open>Math.round\<close> of the value computed on line 105, so it is non-negative exactly
  when that computed value is at least -1/2, and negative otherwise. This holds whatever
  rounding \<open>rnd\<close> the arithmetic applies to the result of each operation: binary64 in
  the code, none in exact arithmetic.
\<close>

theorem totalPayable_unclamped:
  "(let q = readPricing rnd p;
        h = durationHoursWith rnd pu dr;
        d = durationDaysWith rnd pu dr;
        base = calcBaseAmountWith rnd q d h;
        driver = calcDriverAmountWith rnd bt drv h;
        tax = rnd (rnd (base + driver) * rnd (18 / 100));
        dep = js_or (depositAmount q) 0;
        disc = promoDiscountWith rnd (readPromo rnd pc) base;
        total = rnd (rnd (rnd (rnd (base + driver) + tax) + dep) - disc)
    in totalPayable (computePriceWith rnd p pu dr bt drv (Some pc)) = of_int (Math_round total)
       \<and> (0 \<le> totalPayable (computePriceWith rnd p pu dr bt drv (Some pc)))
           = (- (1 / 2) \<le> total))"
  by (simp add: computePriceWith_def Let_def calcDiscountWith_def taxesWith_def totalWith_def
        Math_round_nonneg)

subsection \<open>The weekly tier\<close>

text \<open>
  C10: the price is not monotone in the duration. At 1000 a day with a weekly discount
  of 20 percent, seven days cost 5600 and six days cost 6000; and with a positive weekly
  discount, every duration of at least 7 and less than 30 days without leftover hours
  has the same base amount, the discounted price of seven days.
\<close>

theorem weekly_tier_not_monotone:
  "baseAmount (computePrice demo_pricing 0 (7 * 86400000) ''self-drive'' False None) = 5600
   \<and> baseAmount (computePrice demo_pricing 0 (6 * 86400000) ''self-drive'' False None) = 6000
   \<and> (\<forall>p pu dr bt drv promo.
         weeklyDiscountPercent p > 0 \<longrightarrow> 7 \<le> durationDays pu dr \<longrightarrow> durationDays pu dr < 30
         \<longrightarrow> js_rem (durationHours pu dr) 24 = 0
         \<longrightarrow> baseAmount (computePrice p pu dr bt drv promo)
               = baseDaily p * 7 - baseDaily p * 7 * (weeklyDiscountPercent p / 100))"
proof (intro conjI allI impI)
  show "baseAmount (computePrice demo_pricing 0 (7 * 86400000) ''self-drive'' False None) = 5600"
    by code_simp
  show "baseAmount (computePrice demo_pricing 0 (6 * 86400000) ''self-drive'' False None) = 6000"
    by code_simp
next
  fix p :: pricing and pu dr bt drv promo
  assume "weeklyDiscountPercent p > 0" "7 \<le> durationDays pu dr" "durationDays pu dr < 30"
    "js_rem (durationHours pu dr) 24 = 0"
  then show "baseAmount (computePrice p pu dr bt drv promo)
               = baseDaily p * 7 - baseDaily p * 7 * (weeklyDiscountPercent p / 100)"
    by (simp add: computePrice_def Let_def calcBaseAmount_def tierAmount_weekly)
qed

text \<open>C10 at ten days and at twenty-nine days: both cost 5600.\<close>

theorem weekly_tier_not_monotone_witness:
  "weeklyDiscountPercent demo_pricing > 0
   \<and> 7 \<le> durationDays 0 (10 * 86400000) \<and> durationDays 0 (10 * 86400000) < 30
   \<and> js_rem (durationHours 0 (10 * 86400000)) 24 = 0
   \<and> baseAmount (computePrice demo_pricing 0 (10 * 86400000) ''self-drive'' False None) = 5600
   \<and> baseAmount (computePrice demo_pricing 0 (29 * 86400000) ''self-drive'' False None) = 5600"
proof -
  have w: "weeklyDiscountPercent demo_pricing > 0" by (simp add: demo_pricing_def)
  have d10: "durationDays 0 (10 * 86400000) = 10" "durationHours 0 (10 * 86400000) = 240"
    by (simp_all add: durationDays_def durationHours_def Math_ceil_def Let_def)
  have d29: "durationDays 0 (29 * 86400000) = 29" "durationHours 0 (29 * 86400000) = 696"
    by (simp_all add: durationDays_def durationHours_def Math_ceil_def Let_def)
  have r: "js_rem 240 24 = 0" "js_rem 696 24 = 0" by (simp_all add: js_rem_def)
  have "baseAmount (computePrice demo_pricing 0 (10 * 86400000) ''self-drive'' False None)
          = baseDaily demo_pricing * 7
            - baseDaily demo_pricing * 7 * (weeklyDiscountPercent demo_pricing / 100)"
    using weekly_tier_not_monotone w d10 r by simp
  moreover
  have "baseAmount (computePrice demo_pricing 0 (29 * 86400000) ''self-drive'' False None)
          = baseDaily demo_pricing * 7
            - baseDaily demo_pricing * 7 * (weeklyDiscountPercent demo_pricing / 100)"
    using weekly_tier_not_monotone w d29 r by simp
  ultimately show ?thesis using w d10 r by (simp add: demo_pricing_def)
qed

section \<open>Facts about the availability check\<close>

lemma isVehicleAvailable_iff:
  "isVehicleAvailable bs v start end' =
     (\<forall>b \<in> set bs. vehicle b = v \<and> datetime (pickup b) < end' \<and> datetime (dropoff b) > start
        \<longrightarrow> status b \<notin> {confirmed, checked_out, in_progress})"
  by (auto simp add: isVehicleAvailable_def list_ex_iff)

lemma hasAvailabilityBlock_iff:
  "hasAvailabilityBlock v pu dr =
     (\<exists>blk \<in> set (availabilityBlocks v). block_start blk \<le> dr \<and> block_end blk \<ge> pu)"
  by (simp add: hasAvailabilityBlock_def list_ex_iff)

subsection \<open>The statuses that block\<close>

text \<open>
  C3, as stated, fails: a booking of vehicle 1 from 10:00 to 12:00 in status
  \<open>pending_payment\<close> overlaps the window from 11:00 to 13:00, and the check reports
  the vehicle available for that window.
\<close>

theorem pending_payment_not_blocking_counterexample:
  "vehicle (demo_booking pending_payment 36000000 43200000) = 1
   \<and> status (demo_booking pending_payment 36000000 43200000) = pending_payment
   \<and> datetime (pickup (demo_booking pending_payment 36000000 43200000)) < 46800000
   \<and> datetime (dropoff (demo_booking pending_payment 36000000 43200000)) > 39600000
   \<and> isVehicleAvailable [demo_booking pending_payment 36000000 43200000] 1 39600000 46800000"
  by (simp add: demo_booking_def isVehicleAvailable_def)

text \<open>
  C3, amended: for every vehicle and requested window, the availability check reports
  the vehicle unavailable whenever an existing reservation for that vehicle whose status
  is \<open>confirmed\<close>, \<open>checked_out\<close> or \<open>in_progress\<close> has a window overlapping the
  requested one; reservations in any other status do not count, so a store in which no
  reservation has one of these three statuses leaves every window available.
\<close>

theorem isVehicleAvailable_blocking_statuses:
  "(\<forall>b \<in> set bs.
       vehicle b = v \<and> status b \<in> {confirmed, checked_out, in_progress}
       \<and> datetime (pickup b) < end' \<and> datetime (dropoff b) > start
       \<longrightarrow> \<not> isVehicleAvailable bs v start end')
   \<and> ((\<forall>b \<in> set bs. status b \<notin> {confirmed, checked_out, in_progress})
      \<longrightarrow> isVehicleAvailable bs v start end')"
  by (auto simp add: isVehicleAvailable_iff)

text \<open>
  The amended C3 at a \<open>checked_out\<close> booking, which blocks, and at a store of a
  \<open>pending_payment\<close> and a \<open>cancelled\<close> booking, which do not.
\<close>

theorem isVehicleAvailable_blocking_statuses_witness:
  "\<not> isVehicleAvailable [demo_booking checked_out 36000000 43200000] 1 39600000 46800000
   \<and> isVehicleAvailable [demo_booking pending_payment 36000000 43200000,
                          demo_booking cancelled 36000000 43200000] 1 39600000 46800000"
proof -
  have "\<not> isVehicleAvailable [demo_booking checked_out 36000000 43200000] 1 39600000 46800000"
    using isVehicleAvailable_blocking_statuses
            [of "[demo_booking checked_out 36000000 43200000]" 1 46800000 39600000]
    by (simp add: demo_booking_def)
  moreover
  have "isVehicleAvailable [demo_booking pending_payment 36000000 43200000,
                            demo_booking cancelled 36000000 43200000] 1 39600000 46800000"
    using isVehicleAvailable_blocking_statuses
            [of "[demo_booking pending_payment 36000000 43200000,
                  demo_booking cancelled 36000000 43200000]" 1 46800000 39600000]
    by (simp add: demo_booking_def)
  ultimately show ?thesis by blast
qed

subsection \<open>The interval tests\<close>

text \<open>
  C4, as stated, fails: the vehicle has a vendor block from 12:00 to 14:00 and no
  bookings; the window from 10:00 to 12:00 only touches the block, and the availability
  handler reports it unavailable.
\<close>

theorem blackout_touching_counterexample:
  "map block_start (availabilityBlocks demo_vehicle) = [43200000]
   \<and> isVehicleAvailable (bookings (demo_db [])) 1 36000000 43200000
   \<and> map_sum id available
        (getBookingAvailability (demo_db [])
           \<lparr> ab_vehicleId = Some 1, ab_pickupDateTime = Some 36000000,
             ab_dropoffDateTime = Some 43200000 \<rparr>) = Inr False"
  by (simp add: getBookingAvailability_def demo_db_def demo_vehicle_def findVehicle_def
        isVehicleAvailable_def hasAvailabilityBlock_def)

text \<open>
  C4, amended: for every vehicle and requested window, the availability handler tests
  reservations (those in status \<open>confirmed\<close>, \<open>checked_out\<close> or \<open>in_progress\<close>)
  with the half-open test \<open>existing.start < windowEnd\<close> and
  \<open>existing.end > windowStart\<close>, so a window that touches a reservation boundary is
  not in conflict with it, and tests vendor blocks with the closed test
  \<open>block.start \<le> windowEnd\<close> and \<open>block.end \<ge> windowStart\<close>, so a window that
  touches a block boundary is reported unavailable. The window is available exactly when
  every such reservation ends at or before its start or begins at or after its end, and
  every block ends before its start or begins after its end.
\<close>

theorem availability_interval_tests:
  assumes "findVehicle s vid = Some v"
  shows "\<exists>r. getBookingAvailability s
                \<lparr> ab_vehicleId = Some vid, ab_pickupDateTime = Some pu,
                  ab_dropoffDateTime = Some dr \<rparr> = Inr r
            \<and> (available r =
                 ((\<forall>b \<in> set (bookings s).
                      vehicle b = vid \<and> status b \<in> {confirmed, checked_out, in_progress}
                      \<longrightarrow> datetime (dropoff b) \<le> pu \<or> dr \<le> datetime (pickup b))
                  \<and> (\<forall>blk \<in> set (availabilityBlocks v).
                        block_end blk < pu \<or> dr < block_start blk)))"
  using assms
  by (auto simp add: getBookingAvailability_def Let_def isVehicleAvailable_iff
        hasAvailabilityBlock_iff not_le not_less)

text \<open>
  The amended C4 with a confirmed booking from 10:00 to 12:00: the window from 8:00 to
  10:00 touches it and is available, the window from 8:00 to 10:01 overlaps it by one
  minute and is not.
\<close>

theorem availability_interval_tests_witness:
  "findVehicle (demo_db [demo_booking confirmed 36000000 43200000]) 1 = Some demo_vehicle
   \<and> map_sum id available
        (getBookingAvailability (demo_db [demo_booking confirmed 36000000 43200000])
           \<lparr> ab_vehicleId = Some 1, ab_pickupDateTime = Some 28800000,
             ab_dropoffDateTime = Some 36000000 \<rparr>) = Inr True
   \<and> map_sum id available
        (getBookingAvailability (demo_db [demo_booking confirmed 36000000 43200000])
           \<lparr> ab_vehicleId = Some 1, ab_pickupDateTime = Some 28800000,
             ab_dropoffDateTime = Some 36060000 \<rparr>) = Inr False"
proof -
  let ?s = "demo_db [demo_booking confirmed 36000000 43200000]"
  have v: "findVehicle ?s 1 = Some demo_vehicle" by (rule demo_findVehicle)
  from availability_interval_tests[OF v, of 28800000 36000000]
  have a: "map_sum id available
        (getBookingAvailability ?s
           \<lparr> ab_vehicleId = Some 1, ab_pickupDateTime = Some 28800000,
             ab_dropoffDateTime = Some 36000000 \<rparr>) = Inr True"
    by (auto simp add: demo_db_def demo_booking_def demo_vehicle_def)
  from availability_interval_tests[OF v, of 28800000 36060000]
  have b: "map_sum id available
        (getBookingAvailability ?s
           \<lparr> ab_vehicleId = Some 1, ab_pickupDateTime = Some 28800000,
             ab_dropoffDateTime = Some 36060000 \<rparr>) = Inr False"
    by (auto simp add: demo_db_def demo_booking_def demo_vehicle_def)
  from v a b show ?thesis by blast
qed

section \<open>Facts about creating a booking\<close>

text \<open>Called without a response object, the price handler rejects.\<close>

lemma calculateBookingPrice_without_res:
  "calculateBookingPrice s now req_body None
     = (None, Rejected (TypeError ''Cannot read properties of undefined (reading status)''))"
  by (simp add: calculateBookingPrice_def)

text \<open>Hence no request to \<open>createBooking\<close> is answered with a booking or changes the store.\<close>

lemma createBooking_never_persists:
  "\<exists>e. createBooking s now env body = (Inl e, s)"
  by (simp add: createBooking_def calculateBookingPrice_without_res
        split: option.splits prod.splits)

text \<open>
  Whenever the vehicle exists and the window passes the availability check, the reply
  is the internal error.
\<close>

lemma createBooking_available_fails:
  assumes "bb_vehicleId body = Some vid" and "findVehicle s vid = Some v"
    and "bb_pickup body = Some p" and "bb_dropoff body = Some d"
    and "in_datetime p = Some pu" and "in_datetime d = Some dr"
    and "isVehicleAvailable (bookings s) vid pu dr"
  shows "createBooking s now env body
           = (Inl (HttpError 500 ''Cannot read properties of undefined (reading status)''), s)"
  using assms by (simp add: createBooking_def calculateBookingPrice_without_res)

text \<open>
  The save of lines 250-296 does not look at the bookings of the store (other than for
  the uniqueness of the reference): given a successful price response, the document is
  appended in status \<open>pending_payment\<close> whatever bookings of the vehicle exist.
\<close>

lemma persistBooking_unconditional:
  assumes "\<not> list_ex (\<lambda>b. bookingRef b = gen_bookingRef env) (bookings s)"
    and "bb_bookingType body \<in> {None, Some [], Some ''self-drive'', Some ''with-driver''}"
  shows "\<exists>b s'. persistBooking s env body v pu dr p d pdata
                   = (Inr \<lparr> cd_booking = b, paymentRequired = True \<rparr>, s')
               \<and> bookings s' = bookings s @ [b] \<and> status b = pending_payment
               \<and> vehicle b = vehicle_id v
               \<and> datetime (pickup b) = pu \<and> datetime (dropoff b) = dr"
  using assms by (auto simp add: persistBooking_def Let_def createNotification_def)

text \<open>
  C2 on the code: the store holds vehicle 1 and no booking, the window from 10:00 to
  12:00 passes the availability check, and \<open>createBooking\<close> replies with status 500
  and persists nothing, where C2 says it persists a reservation and returns it in status
  \<open>pending_payment\<close>.
\<close>

theorem createBooking_internal_error:
  "findVehicle (demo_db []) 1 = Some demo_vehicle
   \<and> isVehicleAvailable (bookings (demo_db [])) 1 36000000 43200000
   \<and> createBooking (demo_db []) 0 demo_env (demo_booking_body 36000000 43200000)
       = (Inl (HttpError 500 ''Cannot read properties of undefined (reading status)''),
          demo_db [])"
  by code_simp

section \<open>Facts about the status changes\<close>






lemma demo_findBooking:
  "findBooking (demo_db [demo_booking st t1 t2]) 7 = Some (demo_booking st t1 t2)"
  by (simp add: findBooking_def demo_db_def demo_booking_def)

lemma hoursUntilPickup_demo:
  "hoursUntilPickup (demo_booking st t1 t2) now = of_int (t1 - now) / 3600000"
  by (simp add: hoursUntilPickup_def demo_booking_def)





text \<open>
  \<^verbatim>\<open>paymentController.js\<close> imports the name \<^verbatim>\<open>getPaymentDetails\<close> and declares
  it.
\<close>

lemma getPaymentDetails_declared_twice:
  "''getPaymentDetails'' \<in> set paymentController_imports \<inter> set paymentController_declarations"
  by (simp add: paymentController_imports_def paymentController_declarations_def)


subsection \<open>Terminal states\<close>




subsection \<open>Cancellation\<close>

text \<open>
  C6: for every cancellation of a reservation in status \<open>pending_payment\<close> or
  \<open>confirmed\<close> (by a caller who is not a customer other than its owner), the
  cancellation fee is 50 percent of the base amount when the hours until pickup are less
  than 24, 25 percent when they are at least 24 and less than 48, and 0 otherwise, and
  the reported refund amount is the total payable minus that fee.
\<close>

theorem cancellation_fee_tiers:
  assumes "findBooking s i = Some b"
    and "status b = pending_payment \<or> status b = confirmed"
    and "\<not> (user_role u = Customer \<and> customer b \<noteq> user_id u)"
  shows "\<exists>d s'. cancelBooking s now u i r = (Inr d, s')
           \<and> cn_cancellationFee d =
               (if hoursUntilPickup b now < 24 then baseAmount (priceBreakdown b) * (1 / 2)
                else if hoursUntilPickup b now < 48 then baseAmount (priceBreakdown b) * (1 / 4)
                else 0)
           \<and> refundAmount d = totalPayable (priceBreakdown b) - cn_cancellationFee d
           \<and> status (cn_booking d) = cancelled"
  using assms
  by (auto simp add: cancelBooking_def cancellableStatuses_def Let_def calcCancellationFee_def)

text \<open>
  C6 at a booking of base amount 3000 and total 4040, cancelled by its customer 10, 30
  and 72 hours before pickup: the fee is 1500, 750 and 0, the refund 2540, 3290 and 4040.
\<close>

theorem cancellation_fee_tiers_witness:
  "(\<exists>d s'. cancelBooking (demo_db [demo_booking confirmed (10 * 3600000) (82 * 3600000)]) 0
              demo_customer 7 None = (Inr d, s')
       \<and> cn_cancellationFee d = 1500 \<and> refundAmount d = 2540)
   \<and> (\<exists>d s'. cancelBooking (demo_db [demo_booking confirmed (30 * 3600000) (102 * 3600000)]) 0
              demo_customer 7 None = (Inr d, s')
       \<and> cn_cancellationFee d = 750 \<and> refundAmount d = 3290)
   \<and> (\<exists>d s'. cancelBooking
                (demo_db [demo_booking pending_payment (72 * 3600000) (144 * 3600000)]) 0
              demo_customer 7 None = (Inr d, s')
       \<and> cn_cancellationFee d = 0 \<and> refundAmount d = 4040)"
proof -
  have u: "\<not> (user_role demo_customer = Customer
               \<and> customer (demo_booking st t1 t2) \<noteq> user_id demo_customer)"
    for st t1 t2
    by (simp add: demo_customer_def demo_booking_def)
  have p: "baseAmount (priceBreakdown (demo_booking st t1 t2)) = 3000"
    "totalPayable (priceBreakdown (demo_booking st t1 t2)) = 4040"
    "status (demo_booking st t1 t2) = st" for st t1 t2
    by (simp_all add: demo_booking_def demo_breakdown_def)
  have a: "\<exists>d s'. cancelBooking (demo_db [demo_booking confirmed (10 * 3600000) (82 * 3600000)]) 0
              demo_customer 7 None = (Inr d, s')
       \<and> cn_cancellationFee d = 1500 \<and> refundAmount d = 2540"
    using cancellation_fee_tiers
            [OF demo_findBooking _ u, of confirmed "10 * 3600000" "82 * 3600000" 0 None]
    by (fastforce simp add: p hoursUntilPickup_demo)
  have b: "\<exists>d s'. cancelBooking (demo_db [demo_booking confirmed (30 * 3600000) (102 * 3600000)]) 0
              demo_customer 7 None = (Inr d, s')
       \<and> cn_cancellationFee d = 750 \<and> refundAmount d = 3290"
    using cancellation_fee_tiers
            [OF demo_findBooking _ u, of confirmed "30 * 3600000" "102 * 3600000" 0 None]
    by (fastforce simp add: p hoursUntilPickup_demo)
  have c: "\<exists>d s'. cancelBooking
                    (demo_db [demo_booking pending_payment (72 * 3600000) (144 * 3600000)]) 0
              demo_customer 7 None = (Inr d, s')
       \<and> cn_cancellationFee d = 0 \<and> refundAmount d = 4040"
    using cancellation_fee_tiers
            [OF demo_findBooking _ u, of pending_payment "72 * 3600000" "144 * 3600000" 0 None]
    by (fastforce simp add: p hoursUntilPickup_demo)
  from a b c show ?thesis by blast
qed

text \<open>
  C7: for every reservation whose status is neither \<open>pending_payment\<close> nor
  \<open>confirmed\<close>, the cancel operation fails and leaves the store, and with it every
  field of the reservation, unchanged; the error is the invalid-state reply (status 400,
  naming the status) for every caller who is not a customer other than the owner.
\<close>

theorem cancel_invalid_state_unchanged:
  assumes "findBooking s i = Some b"
    and "status b \<noteq> pending_payment" and "status b \<noteq> confirmed"
  shows "(\<exists>e. fst (cancelBooking s now u i r) = Inl e)
         \<and> snd (cancelBooking s now u i r) = s
         \<and> findBooking (snd (cancelBooking s now u i r)) i = Some b
         \<and> (\<not> (user_role u = Customer \<and> customer b \<noteq> user_id u) \<longrightarrow>
              fst (cancelBooking s now u i r)
                = Inl (HttpError 400
                    (''Booking cannot be cancelled in '' @ status_name (status b)
                       @ '' status'')))"
  using assms by (auto simp add: cancelBooking_def cancellableStatuses_def)

text \<open>C7 at a completed booking that its customer tries to cancel.\<close>

theorem cancel_invalid_state_unchanged_witness:
  "findBooking (demo_db [demo_booking completed 36000000 43200000]) 7
     = Some (demo_booking completed 36000000 43200000)
   \<and> cancelBooking (demo_db [demo_booking completed 36000000 43200000]) 0 demo_customer 7 None
       = (Inl (HttpError 400 ''Booking cannot be cancelled in completed status''),
          demo_db [demo_booking completed 36000000 43200000])"
proof -
  let ?b = "demo_booking completed 36000000 43200000"
  have f: "findBooking (demo_db [?b]) 7 = Some ?b" by (rule demo_findBooking)
  have st: "status ?b = completed" by (simp add: demo_booking_def)
  have u: "\<not> (user_role demo_customer = Customer \<and> customer ?b \<noteq> user_id demo_customer)"
    by (simp add: demo_customer_def demo_booking_def)
  from cancel_invalid_state_unchanged[OF f, of 0 demo_customer None] u f show ?thesis
    by (simp add: st prod_eq_iff)
qed

end
